theory Spec2Isabelle
  imports Main "HOL-Library.Word"
begin

section \<open>Rankonfirstpage: the usage gate, the premium transition and the page router\<close>

text \<open>
  The development embeds the state of the \<^verbatim>\<open>App\<close> component and its handlers, the two
  optimizer forms that consult the gate, and the callbacks of the PayPal button. The full
  application is the bundled file (types, constants, components and \<^verbatim>\<open>App\<close> in one);
  \<^verbatim>\<open>src/App.tsx\<close> is an earlier \<^verbatim>\<open>App\<close> without the premium flag.
\<close>

subsection \<open>Types and constants\<close>

text \<open>\<^verbatim>\<open>type Page = 'home' | 'optimizer' | 'pricing'\<close> and
  \<^verbatim>\<open>type OptimizerTab = 'product' | 'category'\<close>.\<close>

datatype Page = Home | Optimizer | Pricing

datatype OptimizerTab = Product | Category

text \<open>\<^verbatim>\<open>export const GENERATION_LIMIT = 20\<close>. The counter is a JavaScript number that
  starts at 0 and is only ever changed by adding 1, so it is an integer; it is modelled as
  \<open>int\<close>, and that it is never negative is proved, not assumed by the type.\<close>

definition GENERATION_LIMIT :: int where
  "GENERATION_LIMIT = 20"

text \<open>The two callbacks handed to \<^verbatim>\<open>setTimeout\<close>:
  \<^verbatim>\<open>() => setShowCopyMessage(false)\<close> and \<^verbatim>\<open>() => setShowPaymentSuccessMessage(false)\<close>.\<close>

datatype timeout_action = HideCopyMessage | HidePaymentSuccessMessage

subsection \<open>The state of the \<^verbatim>\<open>App\<close> of \<^verbatim>\<open>src/App.tsx\<close>\<close>

text \<open>The earlier \<^verbatim>\<open>App\<close> has five \<^verbatim>\<open>useState\<close> fields and no premium flag. Its
  \<^verbatim>\<open>Page\<close>, \<^verbatim>\<open>OptimizerTab\<close> and \<^verbatim>\<open>GENERATION_LIMIT\<close> are imported from
  \<^verbatim>\<open>./types\<close> and \<^verbatim>\<open>./constants\<close>, the files the bundle reproduces above.\<close>

record app_tsx_state =
  currentPage :: Page
  initialTab :: OptimizerTab
  generationCount :: int
  showPaywall :: bool
  showCopyMessage :: bool
  pendingTimeouts :: "(nat \<times> timeout_action) list"

subsection \<open>The state of the full \<^verbatim>\<open>App\<close>\<close>

text \<open>One field per \<^verbatim>\<open>useState\<close> of \<^verbatim>\<open>App\<close>, in the order of the source, and the
  timeouts that have been scheduled and have not fired yet, each with its delay in
  milliseconds. The usage counter is \<open>generationCount\<close>, the premium state
  \<open>isPremium\<close>, the current page \<open>currentPage\<close>, the current tab \<open>initialTab\<close> (the tab
  the optimizer page opens on) and the paywall flag \<open>showPaywall\<close>.\<close>

record app_state =
  currentPage :: Page
  initialTab :: OptimizerTab
  generationCount :: int
  showPaywall :: bool
  showCopyMessage :: bool
  isPremium :: bool
  showPaymentSuccessMessage :: bool
  pendingTimeouts :: "(nat \<times> timeout_action) list"

text \<open>The initial values of the \<^verbatim>\<open>useState\<close> calls: a fresh session.\<close>

definition initialState :: app_state where
  "initialState =
     \<lparr> currentPage = Home, initialTab = Product, generationCount = 0,
       showPaywall = False, showCopyMessage = False, isPremium = False,
       showPaymentSuccessMessage = False, pendingTimeouts = [] \<rparr>"

subsection \<open>The handlers of \<^verbatim>\<open>App\<close>\<close>

definition handleNavigateToOptimizer :: "OptimizerTab \<Rightarrow> app_state \<Rightarrow> app_state" where
  "handleNavigateToOptimizer tab s = s\<lparr>initialTab := tab, currentPage := Optimizer\<rparr>"

definition handleNavigateHome :: "app_state \<Rightarrow> app_state" where
  "handleNavigateHome s = s\<lparr>currentPage := Home\<rparr>"

definition handleNavigateToPricing :: "app_state \<Rightarrow> app_state" where
  "handleNavigateToPricing s = s\<lparr>currentPage := Pricing\<rparr>"

text \<open>
  \<^verbatim>\<open>setIsPremium(true); setCurrentPage('optimizer'); setShowPaymentSuccessMessage(true);
  setTimeout(() => setShowPaymentSuccessMessage(false), 3000)\<close>.
  None of the four calls can throw, so the handler has no error result.
\<close>

definition handlePaymentSuccess :: "app_state \<Rightarrow> app_state" where
  "handlePaymentSuccess s =
     s\<lparr>isPremium := True, currentPage := Optimizer, showPaymentSuccessMessage := True,
       pendingTimeouts := pendingTimeouts s @ [(3000, HidePaymentSuccessMessage)]\<rparr>"

text \<open>
  The gate. The callback is rebuilt whenever \<^verbatim>\<open>generationCount\<close> or \<^verbatim>\<open>isPremium\<close>
  changes (its dependency array), so the values it tests are those of the state at the
  call. It returns the boolean and the state after the queued updates.
\<close>

definition handleGenerationAttempt :: "app_state \<Rightarrow> bool \<times> app_state" where
  "handleGenerationAttempt s =
     (if isPremium s then (True, s)
      else if generationCount s \<ge> GENERATION_LIMIT then (False, s\<lparr>showPaywall := True\<rparr>)
      else (True, s\<lparr>generationCount := generationCount s + 1\<rparr>))"

text \<open>\<^verbatim>\<open>setShowCopyMessage(true); setTimeout(() => setShowCopyMessage(false), 2000)\<close>.\<close>

definition handleCopyToClipboard :: "app_state \<Rightarrow> app_state" where
  "handleCopyToClipboard s =
     s\<lparr>showCopyMessage := True,
       pendingTimeouts := pendingTimeouts s @ [(2000, HideCopyMessage)]\<rparr>"

text \<open>The two callbacks \<^verbatim>\<open>App\<close> passes to \<^verbatim>\<open>PaywallModal\<close>:
  \<^verbatim>\<open>onClose={() => setShowPaywall(false)}\<close> and
  \<^verbatim>\<open>onUpgrade={() => { setShowPaywall(false); handleNavigateToPricing(); }}\<close>.\<close>

definition paywallOnClose :: "app_state \<Rightarrow> app_state" where
  "paywallOnClose s = s\<lparr>showPaywall := False\<rparr>"

definition paywallOnUpgrade :: "app_state \<Rightarrow> app_state" where
  "paywallOnUpgrade s = handleNavigateToPricing (s\<lparr>showPaywall := False\<rparr>)"

text \<open>A scheduled timeout runs its callback.\<close>

fun runTimeout :: "timeout_action \<Rightarrow> app_state \<Rightarrow> app_state" where
  "runTimeout HideCopyMessage s = s\<lparr>showCopyMessage := False\<rparr>"
| "runTimeout HidePaymentSuccessMessage s = s\<lparr>showPaymentSuccessMessage := False\<rparr>"

text \<open>The \<open>i\<close>-th pending timeout fires: it leaves the queue and its callback runs. An
  index beyond the queue is no event at all.\<close>

definition fireTimeout :: "nat \<Rightarrow> app_state \<Rightarrow> app_state" where
  "fireTimeout i s =
     (if i < length (pendingTimeouts s)
      then runTimeout (snd (pendingTimeouts s ! i))
             (s\<lparr>pendingTimeouts := take i (pendingTimeouts s) @ drop (Suc i) (pendingTimeouts s)\<rparr>)
      else s)"

subsection \<open>The gate of \<^verbatim>\<open>src/App.tsx\<close>\<close>

text \<open>\<^verbatim>\<open>if (generationCount >= GENERATION_LIMIT) { setShowPaywall(true); return false; }
  setGenerationCount(prev => prev + 1); return true;\<close>\<close>

definition App_tsx_handleGenerationAttempt :: "app_tsx_state \<Rightarrow> bool \<times> app_tsx_state" where
  "App_tsx_handleGenerationAttempt s =
     (if app_tsx_state.generationCount s \<ge> GENERATION_LIMIT
      then (False, s\<lparr>app_tsx_state.showPaywall := True\<rparr>)
      else (True, s\<lparr>app_tsx_state.generationCount := app_tsx_state.generationCount s + 1\<rparr>))"

text \<open>What a state of the full application is to the earlier \<^verbatim>\<open>App\<close>: the fields the two
  share.\<close>

definition tsx_view :: "app_state \<Rightarrow> app_tsx_state" where
  "tsx_view s =
     \<lparr> app_tsx_state.currentPage = currentPage s,
       app_tsx_state.initialTab = initialTab s,
       app_tsx_state.generationCount = generationCount s,
       app_tsx_state.showPaywall = showPaywall s,
       app_tsx_state.showCopyMessage = showCopyMessage s,
       app_tsx_state.pendingTimeouts = pendingTimeouts s \<rparr>"

subsection \<open>JavaScript strings and \<^verbatim>\<open>String.prototype.trim\<close>\<close>

text \<open>A JavaScript string is a sequence of 16-bit code units. \<^verbatim>\<open>trim\<close> removes, at both
  ends, the code units that ECMAScript calls white space or line terminators: TAB, LF, VT,
  FF, CR, SP, NBSP, the other space separators of Unicode, LS, PS and the byte order
  mark.\<close>

type_synonym jsstring = "16 word list"

definition isWhiteSpace :: "16 word \<Rightarrow> bool" where
  "isWhiteSpace c =
     (c \<in> {0x0009, 0x000A, 0x000B, 0x000C, 0x000D, 0x0020, 0x00A0, 0x1680,
            0x2000, 0x2001, 0x2002, 0x2003, 0x2004, 0x2005, 0x2006, 0x2007,
            0x2008, 0x2009, 0x200A, 0x2028, 0x2029, 0x202F, 0x205F, 0x3000, 0xFEFF})"

definition trim :: "jsstring \<Rightarrow> jsstring" where
  "trim s = rev (dropWhile isWhiteSpace (rev (dropWhile isWhiteSpace s)))"

text \<open>An ASCII literal of the source as a JavaScript string.\<close>

definition js :: "string \<Rightarrow> jsstring" where
  "js = map (\<lambda>c. of_nat (of_char c))"

text \<open>\<^verbatim>\<open>s.split(sep)\<close> for a one-unit separator: the empty string gives one empty
  piece.\<close>

fun split :: "16 word \<Rightarrow> jsstring \<Rightarrow> jsstring list" where
  "split sep [] = [[]]"
| "split sep (c # cs) =
     (if c = sep then [] # split sep cs
      else (case split sep cs of
              [] \<Rightarrow> [[c]]
            | piece # pieces \<Rightarrow> (c # piece) # pieces))"

text \<open>\<^verbatim>\<open>pieces.join(sep)\<close>.\<close>

fun join :: "jsstring \<Rightarrow> jsstring list \<Rightarrow> jsstring" where
  "join sep [] = []"
| "join sep [piece] = piece"
| "join sep (piece # pieces) = piece @ sep @ join sep pieces"

text \<open>\<^verbatim>\<open>xs[index]?.trim() || fallback\<close>: an index beyond the array reads
  \<^verbatim>\<open>undefined\<close>, and \<^verbatim>\<open>undefined\<close> and the empty string both give the fallback.\<close>

definition trimmedOr :: "jsstring list \<Rightarrow> nat \<Rightarrow> jsstring \<Rightarrow> jsstring" where
  "trimmedOr xs index fallback =
     (if index < length xs \<and> trim (xs ! index) \<noteq> [] then trim (xs ! index) else fallback)"

subsection \<open>The optimizer forms\<close>

text \<open>The local state of \<^verbatim>\<open>ProductOptimizer\<close>. The content is whatever the generator's
  JSON parses to, so its type is a parameter.\<close>

record 'c ProductOptimizer =
  productName :: jsstring
  "keywords" :: jsstring
  price :: jsstring
  isLoading :: bool
  error :: "jsstring option"
  content :: "'c option"

text \<open>
  \<^verbatim>\<open>ProductOptimizer.handleSubmit\<close> up to its \<^verbatim>\<open>await\<close>. The gate is the callback
  \<^verbatim>\<open>onGenerationAttempt\<close> the form was given, acting on the state \<open>a\<close> of whoever owns
  it. The result is the form, the owner's state, and the request sent to the Content
  Generator, if one was sent.
\<close>

definition ProductOptimizer_handleSubmit ::
  "('a \<Rightarrow> bool \<times> 'a) \<Rightarrow> 'c ProductOptimizer \<Rightarrow> 'a
     \<Rightarrow> 'c ProductOptimizer \<times> 'a \<times> (jsstring \<times> jsstring \<times> jsstring) option" where
  "ProductOptimizer_handleSubmit onGenerationAttempt f a =
     (if trim (productName f) = [] \<or> trim (keywords f) = []
      then (f\<lparr>ProductOptimizer.error :=
                Some (js ''Please fill out both product name and keywords.'')\<rparr>, a, None)
      else (let (permitted, a') = onGenerationAttempt a in
            if \<not> permitted then (f, a', None)
            else (f\<lparr>ProductOptimizer.isLoading := True, ProductOptimizer.error := None,
                     ProductOptimizer.content := None\<rparr>,
                  a', Some (productName f, keywords f, price f))))"

text \<open>How the generator's promise settles. It resolves with whatever \<^verbatim>\<open>JSON.parse\<close>
  returned, which may be \<^verbatim>\<open>null\<close> (\<open>None\<close>, as in the \<^verbatim>\<open>content\<close> field), or it
  rejects.\<close>

datatype 'c settlement = Resolved "'c option" | Rejected

text \<open>The rest of \<^verbatim>\<open>handleSubmit\<close>, when the promise settles:
  \<^verbatim>\<open>try { setContent(result) } catch { setError(...) } finally { setIsLoading(false) }\<close>.
  The resolved value is stored as it is, so a \<^verbatim>\<open>null\<close> result leaves no content.\<close>

definition ProductOptimizer_settled ::
  "'c settlement \<Rightarrow> 'c ProductOptimizer \<Rightarrow> 'c ProductOptimizer" where
  "ProductOptimizer_settled outcome f =
     (case outcome of
        Resolved result \<Rightarrow>
          f\<lparr>ProductOptimizer.content := result, ProductOptimizer.isLoading := False\<rparr>
      | Rejected \<Rightarrow>
          f\<lparr>ProductOptimizer.error := Some (js ''Failed to generate content. Please try again.''),
            ProductOptimizer.isLoading := False\<rparr>)"

text \<open>The local state of \<^verbatim>\<open>CategoryOptimizer\<close>.\<close>

record 'c CategoryOptimizer =
  categoryKeywords :: jsstring
  productNames :: jsstring
  productPrices :: jsstring
  productLinks :: jsstring
  isLoading :: bool
  error :: "jsstring option"
  content :: "'c option"

text \<open>The list of products sent to the generator: one line per line of the names field,
  with the price and the link of the same line number.\<close>

definition productDetails :: "jsstring \<Rightarrow> jsstring \<Rightarrow> jsstring \<Rightarrow> jsstring" where
  "productDetails namesText pricesText linksText =
     (let names = split 0x0A namesText;
          prices = split 0x0A pricesText;
          links = split 0x0A linksText
      in join [0x0A]
           (map (\<lambda>(index, name).
                   js ''- '' @ trim name @ js '' (Price: '' @ trimmedOr prices index (js ''N/A'')
                   @ js '', Link: '' @ trimmedOr links index (js ''#'') @ js '')'')
                (enumerate 0 names)))"

text \<open>\<^verbatim>\<open>CategoryOptimizer.handleSubmit\<close> up to its \<^verbatim>\<open>await\<close>; the request is the
  category keywords and the product details.\<close>

definition CategoryOptimizer_handleSubmit ::
  "('a \<Rightarrow> bool \<times> 'a) \<Rightarrow> 'c CategoryOptimizer \<Rightarrow> 'a
     \<Rightarrow> 'c CategoryOptimizer \<times> 'a \<times> (jsstring \<times> jsstring) option" where
  "CategoryOptimizer_handleSubmit onGenerationAttempt f a =
     (if trim (categoryKeywords f) = [] \<or> trim (productNames f) = []
      then (f\<lparr>CategoryOptimizer.error :=
                Some (js ''Please fill out category keywords and at least one product name.'')\<rparr>,
            a, None)
      else (let (permitted, a') = onGenerationAttempt a in
            if \<not> permitted then (f, a', None)
            else (f\<lparr>CategoryOptimizer.isLoading := True, CategoryOptimizer.error := None,
                     CategoryOptimizer.content := None\<rparr>,
                  a', Some (categoryKeywords f,
                            productDetails (productNames f) (productPrices f) (productLinks f)))))"

definition CategoryOptimizer_settled ::
  "'c settlement \<Rightarrow> 'c CategoryOptimizer \<Rightarrow> 'c CategoryOptimizer" where
  "CategoryOptimizer_settled outcome f =
     (case outcome of
        Resolved result \<Rightarrow>
          f\<lparr>CategoryOptimizer.content := result, CategoryOptimizer.isLoading := False\<rparr>
      | Rejected \<Rightarrow>
          f\<lparr>CategoryOptimizer.error := Some (js ''Failed to generate content. Please try again.''),
            CategoryOptimizer.isLoading := False\<rparr>)"

text \<open>A gate that counts how often it is consulted: the gate of \<^verbatim>\<open>App\<close> with a call
  counter beside the state.\<close>

definition countedGate :: "nat \<times> app_state \<Rightarrow> bool \<times> (nat \<times> app_state)" where
  "countedGate = (\<lambda>(calls, s).
     let (permitted, s') = handleGenerationAttempt s in (permitted, (Suc calls, s')))"

text \<open>"Empty or whitespace-only", in the words of the specification.\<close>

definition blank :: "jsstring \<Rightarrow> bool" where
  "blank s = (s = [] \<or> list_all isWhiteSpace s)"

subsection \<open>The callbacks of \<^verbatim>\<open>PayPalButton\<close>\<close>

text \<open>
  \<^verbatim>\<open>onApprove: async (_, actions) => { await actions.order.capture(); onSuccess(); }\<close>:
  \<^verbatim>\<open>onSuccess\<close> runs when the capture resolves and not when it rejects.
  \<^verbatim>\<open>onError: (err) => { console.error("PayPal SDK Error:", err); }\<close>: the world of the
  callback is the application state and the console.
\<close>

definition PayPalButton_onApprove :: "bool \<Rightarrow> ('a \<Rightarrow> 'a) \<Rightarrow> 'a \<Rightarrow> 'a" where
  "PayPalButton_onApprove captured onSuccess s = (if captured then onSuccess s else s)"

definition PayPalButton_onError ::
  "'e \<Rightarrow> app_state \<times> (jsstring \<times> 'e) list \<Rightarrow> app_state \<times> (jsstring \<times> 'e) list" where
  "PayPalButton_onError err = (\<lambda>(s, console). (s, console @ [(js ''PayPal SDK Error:'', err)]))"

subsection \<open>Sessions: sequences of events\<close>

text \<open>Every way the state of \<^verbatim>\<open>App\<close> is reached from outside: the navigation handlers, a
  call of the gate, a submission of either form, the copy button, the two buttons of the
  paywall modal, the two outcomes of the payment processor, and a scheduled timeout.\<close>

datatype event =
    NavigateToOptimizer OptimizerTab
  | NavigateHome
  | NavigateToPricing
  | GenerationAttempt
  | ProductSubmit "unit ProductOptimizer"
  | CategorySubmit "unit CategoryOptimizer"
  | CopyToClipboard
  | PaywallClose
  | PaywallUpgrade
  | PayPalApprove bool
  | PayPalError
  | TimeoutFires nat

fun step :: "event \<Rightarrow> app_state \<Rightarrow> app_state" where
  "step (NavigateToOptimizer tab) s = handleNavigateToOptimizer tab s"
| "step NavigateHome s = handleNavigateHome s"
| "step NavigateToPricing s = handleNavigateToPricing s"
| "step GenerationAttempt s = snd (handleGenerationAttempt s)"
| "step (ProductSubmit f) s = fst (snd (ProductOptimizer_handleSubmit handleGenerationAttempt f s))"
| "step (CategorySubmit f) s = fst (snd (CategoryOptimizer_handleSubmit handleGenerationAttempt f s))"
| "step CopyToClipboard s = handleCopyToClipboard s"
| "step PaywallClose s = paywallOnClose s"
| "step PaywallUpgrade s = paywallOnUpgrade s"
| "step (PayPalApprove captured) s = PayPalButton_onApprove captured handlePaymentSuccess s"
| "step PayPalError s = fst (PayPalButton_onError () (s, []))"
| "step (TimeoutFires i) s = fireTimeout i s"

fun run :: "event list \<Rightarrow> app_state \<Rightarrow> app_state" where
  "run [] s = s"
| "run (e # es) s = run es (step e s)"

text \<open>\<open>n\<close> calls of the gate in a row: the booleans returned, in order, and the state after
  the last call.\<close>

fun attempts :: "nat \<Rightarrow> app_state \<Rightarrow> bool list \<times> app_state" where
  "attempts 0 s = ([], s)"
| "attempts (Suc n) s =
     (let (permitted, s') = handleGenerationAttempt s;
          (rest, s'') = attempts n s'
      in (permitted # rest, s''))"

text \<open>A free-tier session on the optimizer page whose usage counter has reached the limit.\<close>

definition limitState :: app_state where
  "limitState =
     \<lparr> currentPage = Optimizer, initialTab = Product, generationCount = 20,
       showPaywall = False, showCopyMessage = False, isPremium = False,
       showPaymentSuccessMessage = False, pendingTimeouts = [] \<rparr>"

text \<open>\<^verbatim>\<open>{currentPage === 'pricing' && <PricingPage onPaymentSuccess={handlePaymentSuccess} />}\<close>:
  the PayPal buttons are on the pricing page.\<close>

definition pricingPageShown :: "app_state \<Rightarrow> bool" where
  "pricingPageShown s = (currentPage s = Pricing)"

text \<open>Two invalid submissions: a product form whose name is two spaces, and a category form
  whose product names are a line feed and a space.\<close>

definition blankNameForm :: "unit ProductOptimizer" where
  "blankNameForm =
     \<lparr> productName = js ''  '', keywords = js ''tea'', price = [],
       ProductOptimizer.isLoading = False, ProductOptimizer.error = None,
       ProductOptimizer.content = None \<rparr>"

definition blankNamesForm :: "unit CategoryOptimizer" where
  "blankNamesForm =
     \<lparr> categoryKeywords = js ''tea'', productNames = [0x0A, 0x20], productPrices = [],
       productLinks = [], CategoryOptimizer.isLoading = False, CategoryOptimizer.error = None,
       CategoryOptimizer.content = None \<rparr>"

subsection \<open>Theorems\<close>

text \<open>
  C1. For every state, the gate returns true if and only if the premium flag is set or the
  usage counter is strictly below the generation limit, which is 20.
\<close>

theorem gate_permits_iff:
  "fst (handleGenerationAttempt s) = (isPremium s \<or> generationCount s < GENERATION_LIMIT)
   \<and> GENERATION_LIMIT = 20"
  by (simp add: handleGenerationAttempt_def GENERATION_LIMIT_def)

text \<open>The three branches of the gate.\<close>

lemma gate_premium: "isPremium s \<Longrightarrow> handleGenerationAttempt s = (True, s)"
  by (simp add: handleGenerationAttempt_def)

lemma gate_blocked:
  "\<not> isPremium s \<Longrightarrow> GENERATION_LIMIT \<le> generationCount s
     \<Longrightarrow> handleGenerationAttempt s = (False, s\<lparr>showPaywall := True\<rparr>)"
  by (simp add: handleGenerationAttempt_def)

lemma gate_free:
  "\<not> isPremium s \<Longrightarrow> generationCount s < GENERATION_LIMIT
     \<Longrightarrow> handleGenerationAttempt s = (True, s\<lparr>generationCount := generationCount s + 1\<rparr>)"
  by (simp add: handleGenerationAttempt_def)

text \<open>Calls in a row while the free tier lasts, and the call after the last free one.\<close>

lemma attempts_free:
  "\<not> isPremium s \<Longrightarrow> generationCount s + int n \<le> GENERATION_LIMIT
     \<Longrightarrow> attempts n s = (replicate n True, s\<lparr>generationCount := generationCount s + int n\<rparr>)"
proof (induction n arbitrary: s)
  case 0
  then show ?case by simp
next
  case (Suc n)
  let ?s' = "s\<lparr>generationCount := generationCount s + 1\<rparr>"
  from Suc.prems have g: "handleGenerationAttempt s = (True, ?s')"
    by (intro gate_free) auto
  from Suc.prems have "attempts n ?s' = (replicate n True, ?s'\<lparr>generationCount := generationCount ?s' + int n\<rparr>)"
    by (intro Suc.IH) auto
  with g show ?case by (simp add: add.assoc add.commute)
qed

lemma attempts_snoc:
  "attempts (Suc n) s =
     (fst (attempts n s) @ [fst (handleGenerationAttempt (snd (attempts n s)))],
      snd (handleGenerationAttempt (snd (attempts n s))))"
proof (induction n arbitrary: s)
  case 0
  then show ?case by (simp add: split_beta)
next
  case (Suc n)
  have "attempts (Suc (Suc n)) s =
          (fst (handleGenerationAttempt s) # fst (attempts (Suc n) (snd (handleGenerationAttempt s))),
           snd (attempts (Suc n) (snd (handleGenerationAttempt s))))"
    by (simp add: split_beta)
  also have "\<dots> = (fst (attempts (Suc n) s) @ [fst (handleGenerationAttempt (snd (attempts (Suc n) s)))],
      snd (handleGenerationAttempt (snd (attempts (Suc n) s))))"
    by (subst Suc.IH, subst Suc.IH) (simp add: split_beta)
  finally show ?case .
qed


text \<open>The state at the limit is the one a fresh session reaches by opening the optimizer
  and generating 20 times.\<close>

lemma limitState_reached:
  "run (NavigateToOptimizer Product # replicate 20 GenerationAttempt) initialState = limitState"
  by (simp add: eval_nat_numeral initialState_def limitState_def handleNavigateToOptimizer_def
      handleGenerationAttempt_def GENERATION_LIMIT_def)

lemma attempts_then_blocked:
  assumes "\<not> isPremium s" and "generationCount s + int n = GENERATION_LIMIT"
  shows "attempts (Suc n) s =
           (replicate n True @ [False],
            s\<lparr>generationCount := GENERATION_LIMIT, showPaywall := True\<rparr>)"
proof -
  have a: "attempts n s = (replicate n True, s\<lparr>generationCount := generationCount s + int n\<rparr>)"
    using attempts_free [of s n] assms by simp
  show ?thesis
    unfolding attempts_snoc a using assms by (simp add: gate_blocked)
qed

text \<open>
  C2. With the premium flag off and the usage counter at the generation limit, 20, the gate
  returns false and the counter stays at 20. In particular, in a fresh session the first
  20 calls are permitted and the 21st returns false, the counter still being 20.
\<close>

theorem blocked_at_limit:
  "(\<not> isPremium s \<and> generationCount s = GENERATION_LIMIT \<longrightarrow>
      fst (handleGenerationAttempt s) = False
      \<and> generationCount (snd (handleGenerationAttempt s)) = 20)
   \<and> fst (attempts 20 initialState) = replicate 20 True
   \<and> fst (attempts 21 initialState) = replicate 20 True @ [False]
   \<and> generationCount (snd (attempts 21 initialState)) = 20"
proof -
  have fresh: "\<not> isPremium initialState" "generationCount initialState = 0"
    by (simp_all add: initialState_def)
  have one: "\<not> isPremium s \<and> generationCount s = GENERATION_LIMIT \<longrightarrow>
      fst (handleGenerationAttempt s) = False
      \<and> generationCount (snd (handleGenerationAttempt s)) = 20"
    by (simp add: handleGenerationAttempt_def GENERATION_LIMIT_def)
  have two: "fst (attempts 20 initialState) = replicate 20 True"
    using attempts_free [of initialState 20] fresh by (simp add: GENERATION_LIMIT_def)
  have "attempts (Suc 20) initialState =
      (replicate 20 True @ [False],
       initialState\<lparr>generationCount := GENERATION_LIMIT, showPaywall := True\<rparr>)"
    using fresh by (intro attempts_then_blocked) (simp_all add: GENERATION_LIMIT_def)
  then have three: "fst (attempts 21 initialState) = replicate 20 True @ [False]"
    and four: "generationCount (snd (attempts 21 initialState)) = 20"
    by (simp_all add: GENERATION_LIMIT_def)
  from one two three four show ?thesis by blast
qed

theorem blocked_at_limit_witness:
  "\<not> isPremium limitState \<and> generationCount limitState = GENERATION_LIMIT
   \<and> fst (handleGenerationAttempt limitState) = False
   \<and> generationCount (snd (handleGenerationAttempt limitState)) = 20"
  using blocked_at_limit [of limitState]
  by (simp add: limitState_def GENERATION_LIMIT_def)

text \<open>
  C3. From a usage counter of 0 with the premium flag off, for every \<open>n < 20\<close>, each of
  \<open>n\<close> calls of the gate in a row returns true and adds exactly 1 to the counter, which is
  \<open>n\<close> after the sequence.
\<close>

theorem free_attempts_count:
  assumes "generationCount s = 0" and "\<not> isPremium s" and "n < 20"
  shows "fst (attempts n s) = replicate n True
         \<and> generationCount (snd (attempts n s)) = int n
         \<and> (\<forall>k<n. fst (attempts n s) ! k = True
                \<and> generationCount (snd (attempts (Suc k) s))
                    = generationCount (snd (attempts k s)) + 1)"
proof -
  have run: "attempts k s = (replicate k True, s\<lparr>generationCount := int k\<rparr>)" if "k \<le> n" for k
    using attempts_free [of s k] assms that by (simp add: GENERATION_LIMIT_def)
  have "generationCount (snd (attempts (Suc k) s)) = generationCount (snd (attempts k s)) + 1"
    if "k < n" for k
    using run [of k] run [of "Suc k"] that by simp
  then show ?thesis using run [of n] by simp
qed

theorem free_attempts_count_witness:
  "generationCount initialState = 0 \<and> \<not> isPremium initialState \<and> (3::nat) < 20
   \<and> fst (attempts 3 initialState) = replicate 3 True
   \<and> generationCount (snd (attempts 3 initialState)) = 3
   \<and> generationCount (snd (attempts (Suc 2) initialState))
       = generationCount (snd (attempts 2 initialState)) + 1"
proof -
  have h: "generationCount initialState = 0" "\<not> isPremium initialState" "(3::nat) < 20"
    by (simp_all add: initialState_def)
  note t = free_attempts_count [OF h]
  from t have a: "fst (attempts 3 initialState) = replicate 3 True"
    and b: "generationCount (snd (attempts 3 initialState)) = 3"
    by simp_all
  from t have "(2::nat) < 3 \<longrightarrow>
      generationCount (snd (attempts (Suc 2) initialState))
        = generationCount (snd (attempts 2 initialState)) + 1"
    by blast
  then have c: "generationCount (snd (attempts (Suc 2) initialState))
        = generationCount (snd (attempts 2 initialState)) + 1"
    by simp
  from h a b c show ?thesis by blast
qed

text \<open>
  C4. With the premium flag on, the gate returns true and changes nothing: the usage
  counter, the premium flag, the current page, the current tab and the paywall flag are as
  before, whatever the counter is, values of 20 and more included.
\<close>

theorem premium_attempt_no_change:
  "isPremium s \<Longrightarrow>
     handleGenerationAttempt s = (True, s)
     \<and> generationCount (snd (handleGenerationAttempt s)) = generationCount s
     \<and> isPremium (snd (handleGenerationAttempt s)) = isPremium s
     \<and> currentPage (snd (handleGenerationAttempt s)) = currentPage s
     \<and> initialTab (snd (handleGenerationAttempt s)) = initialTab s
     \<and> showPaywall (snd (handleGenerationAttempt s)) = showPaywall s"
  by (simp add: handleGenerationAttempt_def)

theorem premium_attempt_no_change_witness:
  "isPremium (handlePaymentSuccess limitState)
   \<and> generationCount (handlePaymentSuccess limitState) = 20
   \<and> handleGenerationAttempt (handlePaymentSuccess limitState)
       = (True, handlePaymentSuccess limitState)"
  using premium_attempt_no_change [of "handlePaymentSuccess limitState"]
  by (simp add: handlePaymentSuccess_def limitState_def)

text \<open>
  C5. In every state the payment-success handler turns the premium flag on and sets the
  current page to the optimizer. Called a second time, it leaves the flag on and the page
  at the optimizer; the handler has no failing path, and the second call differs from the
  first only in the dismissal timeout it schedules.
\<close>

theorem payment_success_idempotent:
  "isPremium (handlePaymentSuccess s)
   \<and> currentPage (handlePaymentSuccess s) = Optimizer
   \<and> isPremium (handlePaymentSuccess (handlePaymentSuccess s))
   \<and> currentPage (handlePaymentSuccess (handlePaymentSuccess s)) = Optimizer
   \<and> handlePaymentSuccess (handlePaymentSuccess s)
       = (handlePaymentSuccess s)
           \<lparr>pendingTimeouts :=
              pendingTimeouts (handlePaymentSuccess s) @ [(3000, HidePaymentSuccessMessage)]\<rparr>"
  by (simp add: handlePaymentSuccess_def)

text \<open>No step lowers the usage counter or clears the premium flag; so no run does.\<close>

lemma runTimeout_keeps:
  "generationCount (runTimeout a s) = generationCount s" "isPremium (runTimeout a s) = isPremium s"
  by (cases a; simp)+

lemma gate_count_mono: "generationCount s \<le> generationCount (snd (handleGenerationAttempt s))"
  by (simp add: handleGenerationAttempt_def)

lemma gate_keeps_premium: "isPremium (snd (handleGenerationAttempt s)) = isPremium s"
  by (simp add: handleGenerationAttempt_def)

lemma step_count_mono: "generationCount s \<le> generationCount (step e s)"
proof (cases e)
  case GenerationAttempt
  then show ?thesis by (simp add: gate_count_mono)
next
  case (ProductSubmit f)
  then show ?thesis
    using gate_count_mono [of s]
    by (simp add: ProductOptimizer_handleSubmit_def split_beta)
next
  case (CategorySubmit f)
  then show ?thesis
    using gate_count_mono [of s]
    by (simp add: CategoryOptimizer_handleSubmit_def split_beta)
next
  case (TimeoutFires i)
  then show ?thesis by (simp add: fireTimeout_def runTimeout_keeps)
qed (simp_all add: handleNavigateToOptimizer_def handleNavigateHome_def
      handleNavigateToPricing_def handleCopyToClipboard_def paywallOnClose_def
      paywallOnUpgrade_def PayPalButton_onApprove_def PayPalButton_onError_def
      handlePaymentSuccess_def)

lemma step_premium_mono: "isPremium s \<Longrightarrow> isPremium (step e s)"
proof (cases e)
  case GenerationAttempt
  then show "isPremium s \<Longrightarrow> ?thesis" by (simp add: gate_keeps_premium)
next
  case (ProductSubmit f)
  then show "isPremium s \<Longrightarrow> ?thesis"
    by (simp add: ProductOptimizer_handleSubmit_def split_beta gate_keeps_premium)
next
  case (CategorySubmit f)
  then show "isPremium s \<Longrightarrow> ?thesis"
    by (simp add: CategoryOptimizer_handleSubmit_def split_beta gate_keeps_premium)
next
  case (TimeoutFires i)
  then show "isPremium s \<Longrightarrow> ?thesis" by (simp add: fireTimeout_def runTimeout_keeps)
qed (simp_all add: handleNavigateToOptimizer_def handleNavigateHome_def
      handleNavigateToPricing_def handleCopyToClipboard_def paywallOnClose_def
      paywallOnUpgrade_def PayPalButton_onApprove_def PayPalButton_onError_def
      handlePaymentSuccess_def)

lemma run_append: "run (es @ es') s = run es' (run es s)"
  by (induction es arbitrary: s) simp_all

lemma run_count_mono: "generationCount s \<le> generationCount (run es s)"
proof (induction es arbitrary: s)
  case Nil
  show ?case by simp
next
  case (Cons e es)
  have "generationCount s \<le> generationCount (step e s)" by (rule step_count_mono)
  also have "\<dots> \<le> generationCount (run es (step e s))" by (rule Cons.IH)
  finally show ?case by simp
qed

lemma run_premium_mono: "isPremium s \<Longrightarrow> isPremium (run es s)"
  by (induction es arbitrary: s) (simp_all add: step_premium_mono)

text \<open>
  C6. Across every sequence of operations of a session, the usage counter is a
  non-negative integer that starts at 0 and never decreases, no single operation lowering
  it in any state; the premium flag starts false and, once true, stays true.
\<close>

theorem session_monotone:
  "generationCount initialState = 0 \<and> \<not> isPremium initialState
   \<and> 0 \<le> generationCount (run es initialState)
   \<and> generationCount (run es initialState) \<le> generationCount (run (es @ es') initialState)
   \<and> (isPremium (run es initialState) \<longrightarrow> isPremium (run (es @ es') initialState))
   \<and> generationCount s \<le> generationCount (step e s)
   \<and> (isPremium s \<longrightarrow> isPremium (step e s))"
proof -
  have start: "generationCount initialState = 0" "\<not> isPremium initialState"
    by (simp_all add: initialState_def)
  have nonneg: "0 \<le> generationCount (run es initialState)"
    using run_count_mono [of initialState es] start by simp
  have later: "generationCount (run es initialState) \<le> generationCount (run (es @ es') initialState)"
    unfolding run_append by (rule run_count_mono)
  have stays: "isPremium (run es initialState) \<longrightarrow> isPremium (run (es @ es') initialState)"
    unfolding run_append by (simp add: run_premium_mono)
  from start nonneg later stays step_count_mono [of s e] step_premium_mono [of s e]
  show ?thesis by blast
qed

theorem session_monotone_witness:
  "isPremium (run [NavigateToPricing, PayPalApprove True] initialState)
   \<and> isPremium (run ([NavigateToPricing, PayPalApprove True]
                     @ [GenerationAttempt, NavigateHome, PaywallClose, TimeoutFires 0]) initialState)
   \<and> isPremium (step NavigateHome (handlePaymentSuccess initialState))
   \<and> generationCount (run [NavigateToOptimizer Product, GenerationAttempt] initialState) = 1
   \<and> generationCount (run ([NavigateToOptimizer Product, GenerationAttempt]
                             @ [GenerationAttempt, NavigateToPricing, PayPalError]) initialState) = 2"
proof -
  have p: "isPremium (run [NavigateToPricing, PayPalApprove True] initialState)"
    by (simp add: handleNavigateToPricing_def PayPalButton_onApprove_def handlePaymentSuccess_def)
  have q: "isPremium (handlePaymentSuccess initialState)"
    by (simp add: handlePaymentSuccess_def)
  have c: "generationCount (run [NavigateToOptimizer Product, GenerationAttempt] initialState) = 1"
    "generationCount (run ([NavigateToOptimizer Product, GenerationAttempt]
                             @ [GenerationAttempt, NavigateToPricing, PayPalError]) initialState) = 2"
    by (simp_all add: initialState_def handleNavigateToOptimizer_def handleGenerationAttempt_def
        GENERATION_LIMIT_def handleNavigateToPricing_def PayPalButton_onError_def)
  from session_monotone [of "[NavigateToPricing, PayPalApprove True]"
      "[GenerationAttempt, NavigateHome, PaywallClose, TimeoutFires 0]"
      "handlePaymentSuccess initialState" NavigateHome] p q c
  show ?thesis by blast
qed


text \<open>A string trims to the empty string exactly when all its code units are white
  space.\<close>

lemma trim_Nil_iff: "trim s = [] \<longleftrightarrow> list_all isWhiteSpace s"
proof
  assume "trim s = []"
  then have all: "\<forall>c \<in> set (dropWhile isWhiteSpace s). isWhiteSpace c"
    by (simp add: trim_def)
  have "dropWhile isWhiteSpace s = []"
  proof (rule ccontr)
    assume ne: "dropWhile isWhiteSpace s \<noteq> []"
    then have "\<not> isWhiteSpace (hd (dropWhile isWhiteSpace s))" by (rule hd_dropWhile)
    moreover from ne have "hd (dropWhile isWhiteSpace s) \<in> set (dropWhile isWhiteSpace s)"
      by simp
    ultimately show False using all by blast
  qed
  then show "list_all isWhiteSpace s" by (simp add: list_all_iff)
next
  assume "list_all isWhiteSpace s"
  then show "trim s = []" by (auto simp: trim_def list_all_iff dest: set_dropWhileD)
qed

lemma blank_iff: "blank s \<longleftrightarrow> trim s = []"
  by (auto simp: blank_def trim_Nil_iff)

text \<open>The counting gate counts: each call adds one, and a submission whose required fields
  are filled in consults it exactly once.\<close>

lemma countedGate_counts:
  "fst (snd (countedGate (calls, s))) = Suc calls"
  by (simp add: countedGate_def split_beta)

lemma valid_submit_consults_gate:
  "\<not> blank (productName f) \<Longrightarrow> \<not> blank (keywords f) \<Longrightarrow>
     fst (fst (snd (ProductOptimizer_handleSubmit countedGate f (calls, s)))) = Suc calls"
  "\<not> blank (categoryKeywords g) \<Longrightarrow> \<not> blank (productNames g) \<Longrightarrow>
     fst (fst (snd (CategoryOptimizer_handleSubmit countedGate g (calls, s)))) = Suc calls"
  by (simp_all add: blank_iff ProductOptimizer_handleSubmit_def
      CategoryOptimizer_handleSubmit_def countedGate_def split_beta)

text \<open>
  C8. When a required field of a submission is empty or whitespace-only (the product name
  or the keywords of the product form; the category keywords or the product names of the
  category form), the gate is not consulted, whichever gate the form was given: the
  owner's state comes back as it was, no request is sent, the call counter of the counting
  gate does not move, and the usage counter is unchanged.
\<close>

theorem invalid_submit_skips_gate:
  fixes f :: "'c ProductOptimizer" and g :: "'d CategoryOptimizer"
    and gate :: "'a \<Rightarrow> bool \<times> 'a"
  shows
  "(blank (productName f) \<or> blank (keywords f) \<longrightarrow>
      fst (snd (ProductOptimizer_handleSubmit gate f a)) = a
      \<and> snd (snd (ProductOptimizer_handleSubmit gate f a)) = None
      \<and> fst (snd (ProductOptimizer_handleSubmit countedGate f (calls, s))) = (calls, s)
      \<and> generationCount (fst (snd (ProductOptimizer_handleSubmit handleGenerationAttempt f s)))
          = generationCount s)
   \<and> (blank (categoryKeywords g) \<or> blank (productNames g) \<longrightarrow>
      fst (snd (CategoryOptimizer_handleSubmit gate g a)) = a
      \<and> snd (snd (CategoryOptimizer_handleSubmit gate g a)) = None
      \<and> fst (snd (CategoryOptimizer_handleSubmit countedGate g (calls, s))) = (calls, s)
      \<and> generationCount (fst (snd (CategoryOptimizer_handleSubmit handleGenerationAttempt g s)))
          = generationCount s)"
  by (simp add: blank_iff ProductOptimizer_handleSubmit_def CategoryOptimizer_handleSubmit_def)

lemma blank_examples: "blank (js ''  '')" "blank [0x0A, 0x20]" "\<not> blank (js ''tea'')"
  by (simp_all add: blank_def js_def isWhiteSpace_def)

theorem invalid_submit_skips_gate_witness:
  "blank (productName blankNameForm)
   \<and> fst (snd (ProductOptimizer_handleSubmit countedGate blankNameForm (0, initialState)))
       = (0, initialState)
   \<and> blank (productNames blankNamesForm)
   \<and> fst (snd (CategoryOptimizer_handleSubmit countedGate blankNamesForm (0, initialState)))
       = (0, initialState)"
proof -
  have b: "blank (productName blankNameForm)" "blank (productNames blankNamesForm)"
    by (simp_all add: blankNameForm_def blankNamesForm_def blank_examples)
  from invalid_submit_skips_gate [where f = blankNameForm and g = blankNamesForm
      and gate = countedGate and a = "(0, initialState)" and calls = 0 and s = initialState] b
  show ?thesis by blast
qed


text \<open>
  A refused attempt does not move the page router: at the limit, on the optimizer page,
  the gate returns false and the current page is still the optimizer, not pricing.
\<close>

theorem blocked_attempt_redirect_counterexample:
  "fst (handleGenerationAttempt limitState) = False
   \<and> currentPage (snd (handleGenerationAttempt limitState)) = Optimizer
   \<and> currentPage (snd (handleGenerationAttempt limitState)) \<noteq> Pricing"
  by (simp add: handleGenerationAttempt_def limitState_def GENERATION_LIMIT_def)

text \<open>
  C7, amended. Whenever the gate returns false, it sets the paywall flag, the flag that
  opens the paywall modal, and leaves the current page unchanged.
\<close>

theorem blocked_attempt_opens_paywall:
  "\<not> fst (handleGenerationAttempt s) \<Longrightarrow>
     showPaywall (snd (handleGenerationAttempt s))
     \<and> currentPage (snd (handleGenerationAttempt s)) = currentPage s"
  by (simp add: handleGenerationAttempt_def split: if_splits)

theorem blocked_attempt_opens_paywall_witness:
  "\<not> fst (handleGenerationAttempt limitState)
   \<and> showPaywall (snd (handleGenerationAttempt limitState))
   \<and> currentPage (snd (handleGenerationAttempt limitState)) = Optimizer"
proof -
  have h: "\<not> fst (handleGenerationAttempt limitState)"
    by (simp add: handleGenerationAttempt_def limitState_def GENERATION_LIMIT_def)
  have p: "currentPage limitState = Optimizer" by (simp add: limitState_def)
  note t = blocked_attempt_opens_paywall [OF h]
  from t have "currentPage (snd (handleGenerationAttempt limitState)) = currentPage limitState"
    by blast
  also note p
  finally have c: "currentPage (snd (handleGenerationAttempt limitState)) = Optimizer" .
  from t h c show ?thesis by blast
qed

text \<open>The refusal changes the paywall flag and nothing else. From the refused state the
  pricing page is one user action away, by the modal's upgrade button or by the header's
  premium button.\<close>

lemma refusal_changes_flag_only:
  "\<not> fst (handleGenerationAttempt s) \<Longrightarrow>
     snd (handleGenerationAttempt s) = s\<lparr>showPaywall := True\<rparr>"
  by (simp add: handleGenerationAttempt_def split: if_splits)

lemma pricing_after_refusal:
  "currentPage (step PaywallUpgrade (snd (handleGenerationAttempt s))) = Pricing"
  "currentPage (step NavigateToPricing (snd (handleGenerationAttempt s))) = Pricing"
  by (simp_all add: paywallOnUpgrade_def handleNavigateToPricing_def)

text \<open>
  C9. The payment processor's error outcome writes one line to the console and changes no
  state: premium flag, usage counter, current page and current tab are as before. The
  pricing page is shown after it exactly if it was shown before, a capture that fails
  changes nothing either, and an approval after the error still unlocks premium.
\<close>

theorem payment_error_no_state_change:
  "fst (PayPalButton_onError err (s, console)) = s
   \<and> snd (PayPalButton_onError err (s, console)) = console @ [(js ''PayPal SDK Error:'', err)]
   \<and> isPremium (fst (PayPalButton_onError err (s, console))) = isPremium s
   \<and> generationCount (fst (PayPalButton_onError err (s, console))) = generationCount s
   \<and> currentPage (fst (PayPalButton_onError err (s, console))) = currentPage s
   \<and> initialTab (fst (PayPalButton_onError err (s, console))) = initialTab s
   \<and> step PayPalError s = s
   \<and> pricingPageShown (fst (PayPalButton_onError err (s, console))) = pricingPageShown s
   \<and> PayPalButton_onApprove False handlePaymentSuccess s = s
   \<and> isPremium (PayPalButton_onApprove True handlePaymentSuccess
                   (fst (PayPalButton_onError err (s, console))))"
  by (simp add: PayPalButton_onError_def PayPalButton_onApprove_def handlePaymentSuccess_def)

text \<open>With the premium flag on and the counter at the limit the two gates differ: the full
  application permits, \<^verbatim>\<open>src/App.tsx\<close> refuses.\<close>

lemma gates_differ_with_premium:
  "fst (handleGenerationAttempt (handlePaymentSuccess limitState))
   \<and> \<not> fst (App_tsx_handleGenerationAttempt (tsx_view (handlePaymentSuccess limitState)))"
  by (simp add: handleGenerationAttempt_def App_tsx_handleGenerationAttempt_def tsx_view_def
      handlePaymentSuccess_def limitState_def GENERATION_LIMIT_def)

text \<open>
  C10. In every state with the premium flag off, the gate of \<^verbatim>\<open>src/App.tsx\<close> and the gate
  of the full application return the same boolean and make the same update of the usage
  counter and of the paywall flag, the full gate leaving its two extra fields alone. The
  gate of \<^verbatim>\<open>src/App.tsx\<close> has no premium branch: its answer is the comparison of the
  counter with the limit, whatever the premium flag of the full state.
\<close>

theorem gates_agree_without_premium:
  "(\<not> isPremium s \<longrightarrow>
      fst (handleGenerationAttempt s) = fst (App_tsx_handleGenerationAttempt (tsx_view s))
      \<and> tsx_view (snd (handleGenerationAttempt s))
          = snd (App_tsx_handleGenerationAttempt (tsx_view s))
      \<and> isPremium (snd (handleGenerationAttempt s)) = isPremium s
      \<and> showPaymentSuccessMessage (snd (handleGenerationAttempt s))
          = showPaymentSuccessMessage s)
   \<and> fst (App_tsx_handleGenerationAttempt t)
       = (app_tsx_state.generationCount t < GENERATION_LIMIT)
   \<and> App_tsx_handleGenerationAttempt (tsx_view (s\<lparr>isPremium := p\<rparr>))
       = App_tsx_handleGenerationAttempt (tsx_view s)"
  by (simp add: handleGenerationAttempt_def App_tsx_handleGenerationAttempt_def tsx_view_def
      not_le)

theorem gates_agree_without_premium_witness:
  "\<not> isPremium limitState
   \<and> fst (handleGenerationAttempt limitState) = False
   \<and> fst (App_tsx_handleGenerationAttempt (tsx_view limitState)) = False
   \<and> tsx_view (snd (handleGenerationAttempt limitState))
       = snd (App_tsx_handleGenerationAttempt (tsx_view limitState))
   \<and> \<not> isPremium initialState
   \<and> fst (handleGenerationAttempt initialState) = True
   \<and> fst (App_tsx_handleGenerationAttempt (tsx_view initialState)) = True
   \<and> tsx_view (snd (handleGenerationAttempt initialState))
       = snd (App_tsx_handleGenerationAttempt (tsx_view initialState))"
proof -
  have h: "\<not> isPremium limitState" "\<not> isPremium initialState"
    by (simp_all add: limitState_def initialState_def)
  have v: "fst (handleGenerationAttempt limitState) = False"
    "fst (handleGenerationAttempt initialState) = True"
    by (simp_all add: handleGenerationAttempt_def limitState_def initialState_def
        GENERATION_LIMIT_def)
  note a = gates_agree_without_premium
    [where s = limitState and t = "tsx_view limitState" and p = False]
  note b = gates_agree_without_premium
    [where s = initialState and t = "tsx_view initialState" and p = False]
  from a h v have l: "fst (App_tsx_handleGenerationAttempt (tsx_view limitState)) = False"
    "tsx_view (snd (handleGenerationAttempt limitState))
       = snd (App_tsx_handleGenerationAttempt (tsx_view limitState))"
    by blast+
  from b h v have i: "fst (App_tsx_handleGenerationAttempt (tsx_view initialState)) = True"
    "tsx_view (snd (handleGenerationAttempt initialState))
       = snd (App_tsx_handleGenerationAttempt (tsx_view initialState))"
    by blast+
  from h v l i show ?thesis by blast
qed

end
